theory Spec2Isabelle
  imports Main "HOL-Library.Word" "HOL-Library.Monad_Syntax"
begin

section \<open>The shadow stack of ptracer.h\<close>

text \<open>
  The development follows \<^verbatim>\<open>src/ptracer.h\<close>. A C \<^verbatim>\<open>int\<close> is a 32-bit word read
  in two's complement with \<open>sint\<close>; \<open>+\<close> and \<open>-\<close> on it wrap around, which is what the
  usual targets make of the signed overflow that C leaves undefined. The backing array
  \<^verbatim>\<open>fnstack->stack\<close> is the list of the frames of the block that \<^verbatim>\<open>malloc\<close> returned;
  an access outside that block is the fault \<open>Out_of_bounds\<close>.
\<close>

subsection \<open>Data structures\<close>

type_synonym c_int = "32 word"

definition PALLENE_TRACER_CONTAINER_ENTRY :: string where
  "PALLENE_TRACER_CONTAINER_ENTRY = ''__PALLENE_TRACER_CONTAINER''"

definition PALLENE_TRACER_FINALIZER_ENTRY :: string where
  "PALLENE_TRACER_FINALIZER_ENTRY = ''__PALLENE_TRACER_FINALIZER''"

definition PALLENE_TRACER_MAX_CALLSTACK :: c_int where
  "PALLENE_TRACER_MAX_CALLSTACK = 100000"

datatype frame_type = PALLENE_TRACER_FRAME_TYPE_C | PALLENE_TRACER_FRAME_TYPE_LUA

record pt_fn_details =
  fn_name :: string
  filename :: string

text \<open>
  A \<^verbatim>\<open>lua_CFunction\<close> is a pointer to a C function; the two functions of this file
  that are handed to the host have names of their own.
\<close>

datatype lua_CFunction =
  pallene_tracer_finalizer_fn | pallene_tracer_free_resources_fn | host_cfunction nat

text \<open>
  The union \<^verbatim>\<open>shared\<close> holds either a pointer to the (constant) details of a
  function or a function pointer.
\<close>

datatype pt_shared = details pt_fn_details | c_fnptr lua_CFunction

record pt_frame =
  type :: frame_type
  line :: c_int
  shared :: pt_shared

record pt_fnstack =
  stack :: "pt_frame list"
  count :: c_int

text \<open>The frame initialisers; a designated initialiser leaves \<^verbatim>\<open>line\<close> zero.\<close>

definition PALLENE_TRACER_LUA_FRAME :: "lua_CFunction \<Rightarrow> pt_frame" where
  "PALLENE_TRACER_LUA_FRAME fnptr =
     \<lparr>type = PALLENE_TRACER_FRAME_TYPE_LUA, line = 0, shared = c_fnptr fnptr\<rparr>"

definition PALLENE_TRACER_C_FRAME :: "pt_fn_details \<Rightarrow> pt_frame" where
  "PALLENE_TRACER_C_FRAME detl =
     \<lparr>type = PALLENE_TRACER_FRAME_TYPE_C, line = 0, shared = details detl\<rparr>"

subsection \<open>Array accesses\<close>

datatype pt_fault = Out_of_bounds

text \<open>\<^verbatim>\<open>stack[i]\<close> lies inside the allocated block.\<close>

definition in_bounds :: "pt_frame list \<Rightarrow> c_int \<Rightarrow> bool" where
  "in_bounds fs i \<longleftrightarrow> 0 \<le> sint i \<and> nat (sint i) < length fs"

subsection \<open>Entering a frame, setting the line, leaving a frame\<close>

definition pallene_tracer_frameenter :: "pt_fnstack \<Rightarrow> pt_frame \<Rightarrow> pt_fault + pt_fnstack" where
  "pallene_tracer_frameenter fnstack frame =
     (if sint (count fnstack) < sint PALLENE_TRACER_MAX_CALLSTACK then
        (if in_bounds (stack fnstack) (count fnstack) then
           Inr (fnstack\<lparr>stack := (stack fnstack)[nat (sint (count fnstack)) := frame],
                        count := count fnstack + 1\<rparr>)
         else Inl Out_of_bounds)
      else Inr (fnstack\<lparr>count := count fnstack + 1\<rparr>))"

definition pallene_tracer_setline :: "pt_fnstack \<Rightarrow> c_int \<Rightarrow> pt_fault + pt_fnstack" where
  "pallene_tracer_setline fnstack ln =
     (if count fnstack \<noteq> 0 then
        (if in_bounds (stack fnstack) (count fnstack - 1) then
           Inr (fnstack\<lparr>stack := (stack fnstack)
                  [nat (sint (count fnstack - 1)) :=
                     (stack fnstack ! nat (sint (count fnstack - 1)))\<lparr>line := ln\<rparr>]\<rparr>)
         else Inl Out_of_bounds)
      else Inr fnstack)"

text \<open>
  \<^verbatim>\<open>fnstack->count -= (fnstack->count > 0)\<close>: no array is touched and the subtraction
  cannot overflow, so the function has no fault to return.
\<close>

definition pallene_tracer_frameexit :: "pt_fnstack \<Rightarrow> pt_fnstack" where
  "pallene_tracer_frameexit fnstack =
     fnstack\<lparr>count := count fnstack - (if 0 < sint (count fnstack) then 1 else 0)\<rparr>"

text \<open>
  The pointer \<^verbatim>\<open>stack\<close> refers to a block of \<^verbatim>\<open>PALLENE_TRACER_MAX_CALLSTACK\<close> frames,
  as \<^verbatim>\<open>pallene_tracer_init\<close> allocates it.
\<close>

definition allocated :: "pt_fnstack \<Rightarrow> bool" where
  "allocated fnstack \<longleftrightarrow> length (stack fnstack) = nat (sint PALLENE_TRACER_MAX_CALLSTACK)"

subsection \<open>The finalizer\<close>

text \<open>
  The loop of \<^verbatim>\<open>_pallene_tracer_finalizer\<close>:
  \<^verbatim>\<open>while(fnstack->stack[idx].type != PALLENE_TRACER_FRAME_TYPE_LUA) idx--;\<close>
  The source has no test of \<open>idx\<close> against the block: a read outside it is undefined
  in C (the program reads foreign memory or traps), and here it ends the loop with the
  fault, so that nothing is said of the code from that read on. The third argument is
  not in the source: it counts how often the body \<^verbatim>\<open>idx--\<close> has run, and is returned
  beside the outcome of the loop.
\<close>

function finalizer_loop :: "pt_frame list \<Rightarrow> c_int \<Rightarrow> nat \<Rightarrow> nat \<times> (pt_fault + c_int)" where
  "finalizer_loop fs idx n =
     (if in_bounds fs idx then
        (if type (fs ! nat (sint idx)) \<noteq> PALLENE_TRACER_FRAME_TYPE_LUA
         then finalizer_loop fs (idx - 1) (Suc n)
         else (n, Inr idx))
      else (n, Inl Out_of_bounds))"
  by pat_completeness auto
termination
proof (relation "measure (\<lambda>(fs, idx, n). nat (sint idx + 1))")
  show "wf (measure (\<lambda>(fs, idx, n). nat (sint idx + 1)))"
    by simp
next
  fix fs :: "pt_frame list" and idx :: c_int and n :: nat
  assume "in_bounds fs idx"
  then have nonneg: "0 \<le> sint idx"
    by (simp add: in_bounds_def)
  have "sint idx < 2147483648"
    using sint_lt [of idx] by simp
  with nonneg have "sint (idx - 1) = sint idx - 1"
    by (simp add: sint_word_ariths signed_take_bit_int_eq_self_iff)
  with nonneg show "((fs, idx - 1, Suc n), (fs, idx, n))
      \<in> measure (\<lambda>(fs, idx, n). nat (sint idx + 1))"
    by simp
qed

declare finalizer_loop.simps [simp del]

text \<open>
  The host hands the function the userdata of the stack as its upvalue; the function
  works on that \<^verbatim>\<open>pt_fnstack_t\<close> alone.
\<close>

definition pallene_tracer_finalizer :: "pt_fnstack \<Rightarrow> pt_fault + pt_fnstack" where
  "pallene_tracer_finalizer fnstack =
     (case snd (finalizer_loop (stack fnstack) (count fnstack - 1) 0) of
        Inl e \<Rightarrow> Inl e
      | Inr idx \<Rightarrow> Inr (fnstack\<lparr>count := idx\<rparr>))"

subsection \<open>Sequences of calls\<close>

text \<open>
  A caller's sequence of calls on one stack; the run stops at the first fault.
\<close>

datatype pt_op = Frameenter pt_frame | Setline c_int | Frameexit | Finalizer

fun pt_step :: "pt_op \<Rightarrow> pt_fnstack \<Rightarrow> pt_fault + pt_fnstack" where
  "pt_step (Frameenter frame) s = pallene_tracer_frameenter s frame"
| "pt_step (Setline ln) s = pallene_tracer_setline s ln"
| "pt_step Frameexit s = Inr (pallene_tracer_frameexit s)"
| "pt_step Finalizer s = pallene_tracer_finalizer s"

fun pt_run :: "pt_op list \<Rightarrow> pt_fnstack \<Rightarrow> pt_fault + pt_fnstack" where
  "pt_run [] s = Inr s"
| "pt_run (op # ops) s =
     (case pt_step op s of Inl e \<Rightarrow> Inl e | Inr s' \<Rightarrow> pt_run ops s')"

text \<open>
  Call structure: \<open>nesting ops d\<close> follows the depth of open calls through a sequence of
  \<open>Frameenter\<close> and \<open>Frameexit\<close> that starts at depth \<open>d\<close>; it is \<open>None\<close> when a
  \<open>Frameexit\<close> has no open \<open>Frameenter\<close> of the sequence to match. \<open>peak\<close> is the
  greatest depth on the way.
\<close>

fun nesting :: "pt_op list \<Rightarrow> nat \<Rightarrow> nat option" where
  "nesting [] d = Some d"
| "nesting (Frameenter frame # ops) d = nesting ops (Suc d)"
| "nesting (Frameexit # ops) d = (case d of 0 \<Rightarrow> None | Suc d' \<Rightarrow> nesting ops d')"
| "nesting (Setline ln # ops) d = None"
| "nesting (Finalizer # ops) d = None"

definition well_nested :: "pt_op list \<Rightarrow> bool" where
  "well_nested ops \<longleftrightarrow> nesting ops 0 = Some 0"

fun peak :: "pt_op list \<Rightarrow> nat \<Rightarrow> nat" where
  "peak [] d = d"
| "peak (Frameenter frame # ops) d = max d (peak ops (Suc d))"
| "peak (Frameexit # ops) d = max d (peak ops (d - 1))"
| "peak (op # ops) d = max d (peak ops d)"

text \<open>
  The way the calls are meant to be used, as far as the array goes: a frame is entered
  only while \<open>count\<close> is below the capacity, and the finalizer runs only with a frame of
  type LUA below \<open>count\<close> (the macro \<^verbatim>\<open>PALLENE_TRACER_LUA_FRAMEENTER\<close> enters such a
  frame before it arms the finalizer). \<open>within_capacity ops s\<close> says that a run of
  \<open>ops\<close> from \<open>s\<close> meets both conditions at each call it reaches.
\<close>

definition lua_frame_below :: "pt_fnstack \<Rightarrow> bool" where
  "lua_frame_below fnstack \<longleftrightarrow>
     PALLENE_TRACER_FRAME_TYPE_LUA \<in> type ` set (take (nat (sint (count fnstack))) (stack fnstack))"

fun within_capacity :: "pt_op list \<Rightarrow> pt_fnstack \<Rightarrow> bool" where
  "within_capacity [] s = True"
| "within_capacity (op # ops) s =
     ((case op of
         Frameenter frame \<Rightarrow> sint (count s) < sint PALLENE_TRACER_MAX_CALLSTACK
       | Finalizer \<Rightarrow> lua_frame_below s
       | _ \<Rightarrow> True)
      \<and> (case pt_step op s of Inl e \<Rightarrow> True | Inr s' \<Rightarrow> within_capacity ops s'))"


subsection \<open>The host\<close>

text \<open>
  What \<^verbatim>\<open>pallene_tracer_init\<close> uses of a \<^verbatim>\<open>lua_State\<close>, after the Lua 5.4
  reference manual: the registry (a table, here with string keys), the value stack of
  the running C function (its top is the head of the list, so that index \<open>-1\<close> is the
  head), the blocks of the full userdata, their metatables, the tables, and the next
  free address. An absent key reads as \<open>nil\<close>.
\<close>

type_synonym addr = nat

datatype lua_value =
  LNil | LUserdata addr | LTable addr | LCFunction lua_CFunction
  | LCClosure lua_CFunction "lua_value list"

record lua_table =
  entries :: "string \<rightharpoonup> lua_value"
  metatable :: "addr option"

record lua_State =
  registry :: "string \<rightharpoonup> lua_value"
  vstack :: "lua_value list"
  userdata :: "addr \<rightharpoonup> pt_fnstack"
  ud_metatable :: "addr \<rightharpoonup> addr"
  tables :: "addr \<rightharpoonup> lua_table"
  next_addr :: addr

text \<open>
  The value at a negative (relative) stack index; \<open>None\<close> when the index is not valid.
  A call of the API at an index that is not valid, or on a value of the wrong kind, has
  no result (\<open>None\<close>).
\<close>

definition index2value :: "lua_State \<Rightarrow> int \<Rightarrow> lua_value option" where
  "index2value L idx =
     (if idx < 0 \<and> nat (- idx) \<le> length (vstack L)
      then Some (vstack L ! (nat (- idx) - 1)) else None)"

definition lua_push :: "lua_State \<Rightarrow> lua_value \<Rightarrow> lua_State" where
  "lua_push L v = L\<lparr>vstack := v # vstack L\<rparr>"

text \<open>\<^verbatim>\<open>lua_getfield(L, LUA_REGISTRYINDEX, k)\<close> and \<^verbatim>\<open>lua_setfield(L, LUA_REGISTRYINDEX, k)\<close>.\<close>

definition lua_getfield_registry :: "lua_State \<Rightarrow> string \<Rightarrow> lua_State" where
  "lua_getfield_registry L k =
     lua_push L (case registry L k of None \<Rightarrow> LNil | Some v \<Rightarrow> v)"

definition lua_setfield_registry :: "lua_State \<Rightarrow> string \<Rightarrow> lua_State option" where
  "lua_setfield_registry L k =
     (case vstack L of
        [] \<Rightarrow> None
      | v # rest \<Rightarrow>
          Some (L\<lparr>registry := (if v = LNil then (registry L)(k := None)
                                 else (registry L)(k \<mapsto> v)),
                   vstack := rest\<rparr>))"

definition lua_isnil :: "lua_State \<Rightarrow> int \<Rightarrow> bool" where
  "lua_isnil L idx \<longleftrightarrow> index2value L idx = Some LNil"

definition lua_pushnil :: "lua_State \<Rightarrow> lua_State" where
  "lua_pushnil L = lua_push L LNil"

text \<open>
  \<^verbatim>\<open>lua_newuserdata\<close> pushes a new full userdata and returns the address of its block.
  The block is not initialised: \<open>junk\<close> is what it happens to hold.
\<close>

definition lua_newuserdata :: "lua_State \<Rightarrow> pt_fnstack \<Rightarrow> lua_State \<times> addr" where
  "lua_newuserdata L junk =
     (let a = next_addr L in
      ((lua_push L (LUserdata a))
         \<lparr>userdata := (userdata L)(a \<mapsto> junk), next_addr := Suc a\<rparr>, a))"

text \<open>A store through the pointer \<^verbatim>\<open>fnstack\<close> into the block of the userdata.\<close>

definition fnstack_store :: "lua_State \<Rightarrow> addr \<Rightarrow> (pt_fnstack \<Rightarrow> pt_fnstack) \<Rightarrow> lua_State option" where
  "fnstack_store L a f =
     (case userdata L a of
        None \<Rightarrow> None
      | Some u \<Rightarrow> Some (L\<lparr>userdata := (userdata L)(a \<mapsto> f u)\<rparr>))"

text \<open>
  \<^verbatim>\<open>malloc(n * sizeof(pt_frame_t))\<close>. When it succeeds (\<open>Some g\<close>) the result is a block of
  \<open>n\<close> frames whose contents \<open>g\<close> are not determined, \<open>malloc_frames n g\<close>. When it
  fails (\<open>None\<close>) the result is \<^verbatim>\<open>NULL\<close>, a pointer with no frame behind it. The source
  stores the result without a test.
\<close>

definition malloc_frames :: "nat \<Rightarrow> (nat \<Rightarrow> pt_frame) \<Rightarrow> pt_frame list" where
  "malloc_frames n g = map g [0..<n]"

definition malloc :: "nat \<Rightarrow> (nat \<Rightarrow> pt_frame) option \<Rightarrow> pt_frame list" where
  "malloc n m = (case m of None \<Rightarrow> [] | Some g \<Rightarrow> malloc_frames n g)"

definition lua_newtable :: "lua_State \<Rightarrow> lua_State" where
  "lua_newtable L =
     (let a = next_addr L in
      (lua_push L (LTable a))
         \<lparr>tables := (tables L)(a \<mapsto> \<lparr>entries = Map.empty, metatable = None\<rparr>),
          next_addr := Suc a\<rparr>)"

definition lua_pushcfunction :: "lua_State \<Rightarrow> lua_CFunction \<Rightarrow> lua_State" where
  "lua_pushcfunction L f = lua_push L (LCFunction f)"

text \<open>\<^verbatim>\<open>lua_setfield(L, idx, k)\<close>: \<open>t[k] = v\<close> for the table at \<open>idx\<close> and the value on top, which is popped.\<close>

definition lua_setfield :: "lua_State \<Rightarrow> int \<Rightarrow> string \<Rightarrow> lua_State option" where
  "lua_setfield L idx k =
     (case vstack L of
        [] \<Rightarrow> None
      | v # rest \<Rightarrow>
          (case index2value L idx of
             Some (LTable a) \<Rightarrow>
               (case tables L a of
                  None \<Rightarrow> None
                | Some t \<Rightarrow>
                    Some (L\<lparr>vstack := rest,
                             tables := (tables L)
                               (a \<mapsto> t\<lparr>entries := (if v = LNil then (entries t)(k := None)
                                                     else (entries t)(k \<mapsto> v))\<rparr>)\<rparr>))
           | _ \<Rightarrow> None))"

text \<open>\<^verbatim>\<open>lua_setmetatable(L, idx)\<close>: pops a table and makes it the metatable of the value at \<open>idx\<close>.\<close>

definition lua_setmetatable :: "lua_State \<Rightarrow> int \<Rightarrow> lua_State option" where
  "lua_setmetatable L idx =
     (case vstack L of
        LTable m # rest \<Rightarrow>
          (case index2value L idx of
             Some (LUserdata a) \<Rightarrow>
               Some (L\<lparr>vstack := rest, ud_metatable := (ud_metatable L)(a \<mapsto> m)\<rparr>)
           | Some (LTable a) \<Rightarrow>
               (case tables L a of
                  None \<Rightarrow> None
                | Some t \<Rightarrow>
                    Some (L\<lparr>vstack := rest,
                             tables := (tables L)(a \<mapsto> t\<lparr>metatable := Some m\<rparr>)\<rparr>))
           | _ \<Rightarrow> None)
      | _ \<Rightarrow> None)"

definition lua_pushvalue :: "lua_State \<Rightarrow> int \<Rightarrow> lua_State option" where
  "lua_pushvalue L idx =
     (case index2value L idx of None \<Rightarrow> None | Some v \<Rightarrow> Some (lua_push L v))"

text \<open>\<^verbatim>\<open>lua_pushcclosure(L, fn, n)\<close>: pops \<open>n\<close> values, the upvalues, and pushes the closure.\<close>

definition lua_pushcclosure :: "lua_State \<Rightarrow> lua_CFunction \<Rightarrow> nat \<Rightarrow> lua_State option" where
  "lua_pushcclosure L fn n =
     (if n \<le> length (vstack L)
      then Some (L\<lparr>vstack := LCClosure fn (rev (take n (vstack L))) # drop n (vstack L)\<rparr>)
      else None)"

text \<open>\<^verbatim>\<open>lua_touserdata(L, idx)\<close>: the address of the block of a userdata, \<^verbatim>\<open>NULL\<close> (\<open>None\<close>) for any other value.\<close>

definition lua_touserdata :: "lua_State \<Rightarrow> int \<Rightarrow> addr option" where
  "lua_touserdata L idx =
     (case index2value L idx of Some (LUserdata a) \<Rightarrow> Some a | _ \<Rightarrow> None)"

subsection \<open>Initialisation\<close>

text \<open>
  \<^verbatim>\<open>pallene_tracer_init\<close>. The first argument says whether \<^verbatim>\<open>PT_DEBUG\<close> is defined
  when the file is compiled, the second is what the new userdata holds before its fields
  are set, the third is the outcome of \<^verbatim>\<open>malloc\<close>. The result is the state of the host
  with the returned pointer (\<open>None\<close> for \<^verbatim>\<open>NULL\<close>).
\<close>

definition pallene_tracer_init ::
  "bool \<Rightarrow> pt_fnstack \<Rightarrow> (nat \<Rightarrow> pt_frame) option \<Rightarrow> lua_State
     \<Rightarrow> (lua_State \<times> addr option) option" where
  "pallene_tracer_init PT_DEBUG junk m L0 =
     (if PT_DEBUG then
        (let L = lua_getfield_registry L0 PALLENE_TRACER_CONTAINER_ENTRY in
         if lua_isnil L (- 1) then
           do {
             (L, fnstack) \<leftarrow> Some (lua_newuserdata L junk);
             L \<leftarrow> fnstack_store L fnstack
                   (\<lambda>u. u\<lparr>stack := malloc (nat (sint PALLENE_TRACER_MAX_CALLSTACK)) m\<rparr>);
             L \<leftarrow> fnstack_store L fnstack (\<lambda>u. u\<lparr>count := 0\<rparr>);
             L \<leftarrow> Some (lua_newtable L);
             L \<leftarrow> Some (lua_pushcfunction L pallene_tracer_free_resources_fn);
             L \<leftarrow> lua_setfield L (- 2) ''__gc'';
             L \<leftarrow> lua_setmetatable L (- 2);
             L \<leftarrow> Some (lua_newtable L);
             L \<leftarrow> Some (lua_newtable L);
             L \<leftarrow> lua_pushvalue L (- 3);
             L \<leftarrow> lua_pushcclosure L pallene_tracer_finalizer_fn 1;
             L \<leftarrow> lua_setfield L (- 2) ''__close'';
             L \<leftarrow> lua_setmetatable L (- 2);
             L \<leftarrow> lua_setfield_registry L PALLENE_TRACER_FINALIZER_ENTRY;
             L \<leftarrow> lua_setfield_registry L PALLENE_TRACER_CONTAINER_ENTRY;
             Some (lua_getfield_registry L PALLENE_TRACER_FINALIZER_ENTRY, Some fnstack)
           }
         else
           Some (lua_getfield_registry L PALLENE_TRACER_FINALIZER_ENTRY, lua_touserdata L (- 1)))
      else Some (lua_pushnil L0, None))"


section \<open>Arithmetic of the C int\<close>

lemma sint_lo: "- 2147483648 \<le> sint (x::c_int)"
  using sint_ge [of x] by simp

lemma sint_hi: "sint (x::c_int) < 2147483648"
  using sint_lt [of x] by simp

lemma sint_inc: "sint (x::c_int) < 2147483647 \<Longrightarrow> sint (x + 1) = sint x + 1"
  using sint_lo [of x] by (simp add: sint_word_ariths signed_take_bit_int_eq_self_iff)

lemma sint_dec: "- 2147483648 < sint (x::c_int) \<Longrightarrow> sint (x - 1) = sint x - 1"
  using sint_hi [of x] by (simp add: sint_word_ariths signed_take_bit_int_eq_self_iff)

lemma sint_max_callstack: "sint PALLENE_TRACER_MAX_CALLSTACK = 100000"
  by (simp add: PALLENE_TRACER_MAX_CALLSTACK_def)

lemma of_int_sint_id: "word_of_int (sint (x :: c_int)) = x"
  by simp

lemma sint_eq_imp_eq: "sint (x :: c_int) = sint y \<Longrightarrow> x = y"
  by (metis of_int_sint_id)

lemma sint_of_nat_c_int: "n < 2147483648 \<Longrightarrow> sint (of_nat n :: c_int) = int n"
  by (simp add: signed_of_nat signed_take_bit_int_eq_self_iff)

section \<open>The calls one by one\<close>

lemma frame_type_not_lua:
  "t \<noteq> PALLENE_TRACER_FRAME_TYPE_LUA \<longleftrightarrow> t = PALLENE_TRACER_FRAME_TYPE_C"
  by (cases t) simp_all

lemma setline_in_range:
  assumes "0 < sint (count s)" and "sint (count s) \<le> int (length (stack s))"
  shows "pallene_tracer_setline s ln =
    Inr (s\<lparr>stack := (stack s)[nat (sint (count s) - 1) :=
             (stack s ! nat (sint (count s) - 1))\<lparr>line := ln\<rparr>]\<rparr>)"
proof -
  from assms(1) have nz: "count s \<noteq> 0" by auto
  from assms(1) have dec: "sint (count s - 1) = sint (count s) - 1"
    by (simp add: sint_dec)
  with assms have "in_bounds (stack s) (count s - 1)"
    by (simp add: in_bounds_def)
  with nz dec show ?thesis
    by (simp add: pallene_tracer_setline_def)
qed

lemma setline_empty: "count s = 0 \<Longrightarrow> pallene_tracer_setline s ln = Inr s"
  by (simp add: pallene_tracer_setline_def)

lemma setline_beyond:
  assumes "int (length (stack s)) < sint (count s)"
  shows "pallene_tracer_setline s ln = Inl Out_of_bounds"
proof -
  from assms have pos: "0 < sint (count s)" by linarith
  then have nz: "count s \<noteq> 0" by auto
  from pos have dec: "sint (count s - 1) = sint (count s) - 1"
    by (simp add: sint_dec)
  with assms have "\<not> in_bounds (stack s) (count s - 1)"
    by (simp add: in_bounds_def)
  with nz show ?thesis
    by (simp add: pallene_tracer_setline_def)
qed

lemma setline_result:
  assumes "pallene_tracer_setline s ln = Inr s'"
  shows "count s' = count s \<and> length (stack s') = length (stack s)
     \<and> (\<forall>i. type (stack s' ! i) = type (stack s ! i)
            \<and> shared (stack s' ! i) = shared (stack s ! i)
            \<and> (i \<noteq> nat (sint (count s - 1)) \<longrightarrow> stack s' ! i = stack s ! i))"
proof (cases "count s = 0")
  case True
  with assms show ?thesis by (simp add: pallene_tracer_setline_def)
next
  case False
  with assms have inb: "in_bounds (stack s) (count s - 1)"
    and s': "s' = s\<lparr>stack := (stack s)[nat (sint (count s - 1)) :=
                 (stack s ! nat (sint (count s - 1)))\<lparr>line := ln\<rparr>]\<rparr>"
    by (auto simp add: pallene_tracer_setline_def split: if_splits)
  from inb have k: "nat (sint (count s - 1)) < length (stack s)"
    by (simp add: in_bounds_def)
  show ?thesis
  proof (intro conjI allI)
    fix i
    show "type (stack s' ! i) = type (stack s ! i)"
      using s' k by (cases "i = nat (sint (count s - 1))") simp_all
    show "shared (stack s' ! i) = shared (stack s ! i)"
      using s' k by (cases "i = nat (sint (count s - 1))") simp_all
    show "i \<noteq> nat (sint (count s - 1)) \<longrightarrow> stack s' ! i = stack s ! i"
      using s' by simp
  qed (simp_all add: s')
qed

lemma frameenter_below:
  assumes "0 \<le> sint (count s)" and "sint (count s) < sint PALLENE_TRACER_MAX_CALLSTACK"
    and "length (stack s) = nat (sint PALLENE_TRACER_MAX_CALLSTACK)"
  shows "pallene_tracer_frameenter s frame =
    Inr (s\<lparr>stack := (stack s)[nat (sint (count s)) := frame], count := count s + 1\<rparr>)"
  using assms by (simp add: pallene_tracer_frameenter_def in_bounds_def)

lemma frameenter_full:
  assumes "sint PALLENE_TRACER_MAX_CALLSTACK \<le> sint (count s)"
  shows "pallene_tracer_frameenter s frame = Inr (s\<lparr>count := count s + 1\<rparr>)"
  using assms by (simp add: pallene_tracer_frameenter_def)

lemma frameenter_count:
  assumes "pallene_tracer_frameenter s frame = Inr s'"
  shows "count s' = count s + 1"
  using assms by (auto simp add: pallene_tracer_frameenter_def split: if_splits)

lemma frameenter_allocated:
  assumes "allocated s" and "0 \<le> sint (count s)" and "sint (count s) < 2147483647"
  shows "\<exists>s'. pallene_tracer_frameenter s frame = Inr s' \<and> allocated s'
     \<and> sint (count s') = sint (count s) + 1
     \<and> (sint (count s) < sint PALLENE_TRACER_MAX_CALLSTACK \<longrightarrow>
           stack s' = (stack s)[nat (sint (count s)) := frame]
           \<and> stack s' ! nat (sint (count s)) = frame)
     \<and> (sint PALLENE_TRACER_MAX_CALLSTACK \<le> sint (count s) \<longrightarrow> stack s' = stack s)"
proof (cases "sint (count s) < sint PALLENE_TRACER_MAX_CALLSTACK")
  case True
  from assms(1) have len: "length (stack s) = nat (sint PALLENE_TRACER_MAX_CALLSTACK)"
    by (simp add: allocated_def)
  from True assms(2) len have "nat (sint (count s)) < length (stack s)" by linarith
  with frameenter_below [OF assms(2) True len, of frame] assms(1,3) True show ?thesis
    by (simp add: allocated_def sint_inc)
next
  case False
  then have "sint PALLENE_TRACER_MAX_CALLSTACK \<le> sint (count s)" by simp
  from frameenter_full [OF this, of frame] assms(1,3) False show ?thesis
    by (simp add: allocated_def sint_inc)
qed

lemma frameexit_allocated: "allocated (pallene_tracer_frameexit s) = allocated s"
  by (simp add: allocated_def pallene_tracer_frameexit_def)

lemma frameexit_count_bounds:
  assumes "0 \<le> sint (count s)"
  shows "0 \<le> sint (count (pallene_tracer_frameexit s))"
    and "sint (count (pallene_tracer_frameexit s)) \<le> sint (count s)"
  using assms by (simp_all add: pallene_tracer_frameexit_def sint_dec)

lemma finalizer_loop_finds:
  assumes "0 \<le> i" and "i \<le> sint idx" and "nat (sint idx) < length fs"
    and "type (fs ! nat i) = PALLENE_TRACER_FRAME_TYPE_LUA"
  shows "\<exists>r. finalizer_loop fs idx n = (n + nat (sint idx - sint r), Inr r)
           \<and> i \<le> sint r \<and> sint r \<le> sint idx
           \<and> type (fs ! nat (sint r)) = PALLENE_TRACER_FRAME_TYPE_LUA
           \<and> (\<forall>j. sint r < j \<and> j \<le> sint idx \<longrightarrow>
                 type (fs ! nat j) = PALLENE_TRACER_FRAME_TYPE_C)"
  using assms
proof (induction "nat (sint idx - i)" arbitrary: idx n)
  case 0
  then have eq: "sint idx = i" by simp
  with 0 have inb: "in_bounds fs idx" by (simp add: in_bounds_def)
  from eq 0 have "type (fs ! nat (sint idx)) = PALLENE_TRACER_FRAME_TYPE_LUA" by simp
  with inb have "finalizer_loop fs idx n = (n, Inr idx)"
    by (subst finalizer_loop.simps) simp
  with eq 0 show ?case by auto
next
  case (Suc k)
  from Suc.prems have inb: "in_bounds fs idx" by (simp add: in_bounds_def)
  show ?case
  proof (cases "type (fs ! nat (sint idx)) = PALLENE_TRACER_FRAME_TYPE_LUA")
    case True
    with inb have "finalizer_loop fs idx n = (n, Inr idx)"
    by (subst finalizer_loop.simps) simp
    with True Suc.prems show ?thesis by auto
  next
    case False
    from Suc.hyps(2) Suc.prems have lt: "i < sint idx" by linarith
    with Suc.prems have dec: "sint (idx - 1) = sint idx - 1"
      by (simp add: sint_dec)
    from Suc.hyps(2) dec have k: "k = nat (sint (idx - 1) - i)" by linarith
    from dec lt Suc.prems have "i \<le> sint (idx - 1)" "nat (sint (idx - 1)) < length fs"
      by simp_all
    from Suc.hyps(1) [OF k Suc.prems(1) this Suc.prems(4), of "Suc n"]
    obtain r where r: "finalizer_loop fs (idx - 1) (Suc n) = (Suc n + nat (sint (idx - 1) - sint r), Inr r)"
      "i \<le> sint r" "sint r \<le> sint (idx - 1)"
      "type (fs ! nat (sint r)) = PALLENE_TRACER_FRAME_TYPE_LUA"
      "\<forall>j. sint r < j \<and> j \<le> sint (idx - 1) \<longrightarrow> type (fs ! nat j) = PALLENE_TRACER_FRAME_TYPE_C"
      by blast
    from inb False have step: "finalizer_loop fs idx n = finalizer_loop fs (idx - 1) (Suc n)"
      by (subst finalizer_loop.simps) simp
    have above: "\<forall>j. sint r < j \<and> j \<le> sint idx \<longrightarrow> type (fs ! nat j) = PALLENE_TRACER_FRAME_TYPE_C"
    proof (intro allI impI)
      fix j assume j: "sint r < j \<and> j \<le> sint idx"
      show "type (fs ! nat j) = PALLENE_TRACER_FRAME_TYPE_C"
      proof (cases "j = sint idx")
        case True
        with False show ?thesis by (simp add: frame_type_not_lua)
      next
        case False
        with j dec r(5) show ?thesis by simp
      qed
    qed
    have "Suc n + nat (sint (idx - 1) - sint r) = n + nat (sint idx - sint r)"
      using dec r(3) by linarith
    with step r above dec show ?thesis
      by (intro exI [of _ r]) simp
  qed
qed

lemma finalizer_in_range:
  assumes "sint (count s) \<le> int (length (stack s))"
    and "0 \<le> i" and "i < sint (count s)"
    and "type (stack s ! nat i) = PALLENE_TRACER_FRAME_TYPE_LUA"
  shows "\<exists>r. finalizer_loop (stack s) (count s - 1) 0 = (nat (sint (count s) - 1 - sint r), Inr r)
     \<and> pallene_tracer_finalizer s = Inr (s\<lparr>count := r\<rparr>)
     \<and> i \<le> sint r \<and> sint r < sint (count s)
     \<and> type (stack s ! nat (sint r)) = PALLENE_TRACER_FRAME_TYPE_LUA
     \<and> (\<forall>j. sint r < j \<and> j < sint (count s) \<longrightarrow>
           type (stack s ! nat j) = PALLENE_TRACER_FRAME_TYPE_C)"
proof -
  from assms have pos: "0 < sint (count s)" by linarith
  then have dec: "sint (count s - 1) = sint (count s) - 1"
    by (simp add: sint_dec)
  from dec assms have "i \<le> sint (count s - 1)" "nat (sint (count s - 1)) < length (stack s)"
    by linarith+
  from finalizer_loop_finds [OF assms(2) this assms(4), of 0]
  obtain r where r: "finalizer_loop (stack s) (count s - 1) 0 = (0 + nat (sint (count s - 1) - sint r), Inr r)"
    "i \<le> sint r" "sint r \<le> sint (count s - 1)"
    "type (stack s ! nat (sint r)) = PALLENE_TRACER_FRAME_TYPE_LUA"
    "\<forall>j. sint r < j \<and> j \<le> sint (count s - 1) \<longrightarrow> type (stack s ! nat j) = PALLENE_TRACER_FRAME_TYPE_C"
    by blast
  from r(1) have "pallene_tracer_finalizer s = Inr (s\<lparr>count := r\<rparr>)"
    by (simp add: pallene_tracer_finalizer_def)
  with r dec show ?thesis
    by (intro exI [of _ r]) simp
qed

lemma finalizer_beyond:
  assumes "int (length (stack s)) < sint (count s)"
  shows "finalizer_loop (stack s) (count s - 1) 0 = (0, Inl Out_of_bounds)"
    and "pallene_tracer_finalizer s = Inl Out_of_bounds"
proof -
  from assms have pos: "0 < sint (count s)" by linarith
  then have dec: "sint (count s - 1) = sint (count s) - 1"
    by (simp add: sint_dec)
  with assms have "\<not> in_bounds (stack s) (count s - 1)"
    by (simp add: in_bounds_def)
  then show "finalizer_loop (stack s) (count s - 1) 0 = (0, Inl Out_of_bounds)"
    by (subst finalizer_loop.simps) simp
  then show "pallene_tracer_finalizer s = Inl Out_of_bounds"
    by (simp add: pallene_tracer_finalizer_def)
qed

lemma finalizer_loop_no_lua:
  assumes "- 1 \<le> sint idx" and "sint idx < int (length fs)"
    and "\<forall>j. 0 \<le> j \<and> j \<le> sint idx \<longrightarrow> type (fs ! nat j) = PALLENE_TRACER_FRAME_TYPE_C"
  shows "finalizer_loop fs idx n = (n + nat (sint idx + 1), Inl Out_of_bounds)"
  using assms
proof (induction "nat (sint idx + 1)" arbitrary: idx n)
  case 0
  then have "sint idx = - 1" by linarith
  then have "\<not> in_bounds fs idx" by (simp add: in_bounds_def)
  with \<open>sint idx = - 1\<close> show ?case
    by (subst finalizer_loop.simps) simp
next
  case (Suc k)
  then have nonneg: "0 \<le> sint idx" by linarith
  with Suc.prems have inb: "in_bounds fs idx" by (simp add: in_bounds_def)
  from nonneg have dec: "sint (idx - 1) = sint idx - 1" by (simp add: sint_dec)
  from nonneg Suc.prems(3) have "type (fs ! nat (sint idx)) \<noteq> PALLENE_TRACER_FRAME_TYPE_LUA"
    by simp
  with inb have step: "finalizer_loop fs idx n = finalizer_loop fs (idx - 1) (Suc n)"
    by (subst finalizer_loop.simps) simp
  from Suc.hyps(2) dec have k: "k = nat (sint (idx - 1) + 1)" by linarith
  from dec nonneg Suc.prems have "- 1 \<le> sint (idx - 1)" "sint (idx - 1) < int (length fs)"
    "\<forall>j. 0 \<le> j \<and> j \<le> sint (idx - 1) \<longrightarrow> type (fs ! nat j) = PALLENE_TRACER_FRAME_TYPE_C"
    by simp_all
  from Suc.hyps(1) [OF k this, of "Suc n"] step dec nonneg show ?case
    by (simp add: nat_add_distrib)
qed

text \<open>
  Without a frame of type LUA below \<open>count\<close> the scan runs down to \<open>stack[-1]\<close>, outside
  the block.
\<close>

lemma finalizer_without_lua_frame:
  assumes "0 \<le> sint (count s)" and "sint (count s) \<le> int (length (stack s))"
    and "\<forall>j. 0 \<le> j \<and> j < sint (count s) \<longrightarrow> type (stack s ! nat j) = PALLENE_TRACER_FRAME_TYPE_C"
  shows "pallene_tracer_finalizer s = Inl Out_of_bounds"
proof -
  from assms(1) have dec: "sint (count s - 1) = sint (count s) - 1"
    by (simp add: sint_dec)
  with assms have "finalizer_loop (stack s) (count s - 1) 0
      = (0 + nat (sint (count s - 1) + 1), Inl Out_of_bounds)"
    by (intro finalizer_loop_no_lua) simp_all
  then show ?thesis
    by (simp add: pallene_tracer_finalizer_def)
qed

section \<open>Leaving a frame\<close>

text \<open>
  C8: \<^verbatim>\<open>pallene_tracer_frameexit\<close> takes exactly one from \<open>count\<close> when \<open>count > 0\<close>
  and leaves \<open>count\<close> at 0 when it is 0; a count that is not negative stays so. The
  function is total and has no fault among its results: it never raises an error.
\<close>

theorem frameexit_saturating:
  "(0 < sint (count s) \<longrightarrow> sint (count (pallene_tracer_frameexit s)) = sint (count s) - 1)
   \<and> (count s = 0 \<longrightarrow> count (pallene_tracer_frameexit s) = 0)
   \<and> (0 \<le> sint (count s) \<longrightarrow> 0 \<le> sint (count (pallene_tracer_frameexit s)))"
  by (simp add: pallene_tracer_frameexit_def sint_dec)

theorem frameexit_saturating_witness:
  "0 < sint (count \<lparr>stack = [], count = 3\<rparr>)
   \<and> sint (count (pallene_tracer_frameexit \<lparr>stack = [], count = 3\<rparr>)) = 2
   \<and> count (pallene_tracer_frameexit \<lparr>stack = [], count = 0\<rparr>) = 0
   \<and> 0 \<le> sint (count (pallene_tracer_frameexit \<lparr>stack = [], count = 3\<rparr>))"
  using frameexit_saturating [of "\<lparr>stack = [], count = 3\<rparr>"]
    frameexit_saturating [of "\<lparr>stack = [], count = 0\<rparr>"]
  by simp

section \<open>Setting the line\<close>

text \<open>
  C7, as amended: in every state with \<open>0 < count\<close> and \<open>count\<close> at most the capacity of
  the block, \<^verbatim>\<open>pallene_tracer_setline\<close> returns without fault, having written the line
  into the top frame \<open>stack[count - 1]\<close> and left \<open>count\<close> alone; in every state with
  \<open>count = 0\<close> it changes nothing.
\<close>

theorem setline_overwrites_top:
  "(0 < sint (count s) \<and> sint (count s) \<le> int (length (stack s)) \<longrightarrow>
      (\<exists>s'. pallene_tracer_setline s ln = Inr s' \<and> count s' = count s
         \<and> length (stack s') = length (stack s)
         \<and> line (stack s' ! nat (sint (count s) - 1)) = ln))
   \<and> (count s = 0 \<longrightarrow> pallene_tracer_setline s ln = Inr s)"
proof (intro conjI impI)
  assume a: "0 < sint (count s) \<and> sint (count s) \<le> int (length (stack s))"
  then have "nat (sint (count s) - 1) < length (stack s)" by linarith
  with a show "\<exists>s'. pallene_tracer_setline s ln = Inr s' \<and> count s' = count s
         \<and> length (stack s') = length (stack s)
         \<and> line (stack s' ! nat (sint (count s) - 1)) = ln"
    by (simp add: setline_in_range)
next
  assume "count s = 0"
  then show "pallene_tracer_setline s ln = Inr s" by (rule setline_empty)
qed

theorem setline_overwrites_top_witness:
  "0 < sint (count \<lparr>stack = replicate 100000 (PALLENE_TRACER_LUA_FRAME (host_cfunction 0)), count = 2\<rparr>)
   \<and> sint (count \<lparr>stack = replicate 100000 (PALLENE_TRACER_LUA_FRAME (host_cfunction 0)), count = 2\<rparr>)
       \<le> int (length (stack \<lparr>stack = replicate 100000 (PALLENE_TRACER_LUA_FRAME (host_cfunction 0)), count = 2\<rparr>))
   \<and> (\<exists>s'. pallene_tracer_setline
          \<lparr>stack = replicate 100000 (PALLENE_TRACER_LUA_FRAME (host_cfunction 0)), count = 2\<rparr> 7 = Inr s'
        \<and> count s' = 2 \<and> length (stack s') = 100000 \<and> line (stack s' ! 1) = 7)
   \<and> pallene_tracer_setline \<lparr>stack = replicate 100000 (PALLENE_TRACER_LUA_FRAME (host_cfunction 0)), count = 0\<rparr> 7
       = Inr \<lparr>stack = replicate 100000 (PALLENE_TRACER_LUA_FRAME (host_cfunction 0)), count = 0\<rparr>"
  using setline_overwrites_top [of "\<lparr>stack = replicate 100000 (PALLENE_TRACER_LUA_FRAME (host_cfunction 0)), count = 2\<rparr>" 7]
    setline_overwrites_top [of "\<lparr>stack = replicate 100000 (PALLENE_TRACER_LUA_FRAME (host_cfunction 0)), count = 0\<rparr>" 7]
  by simp

text \<open>
  C7 as stated fails: with \<open>count = 100001\<close> on the block of 100000 frames, \<open>count\<close> is
  positive and the write to \<open>stack[100000]\<close> leaves the block.
\<close>

theorem setline_beyond_capacity_counterexample:
  "allocated \<lparr>stack = replicate 100000 (PALLENE_TRACER_LUA_FRAME (host_cfunction 0)), count = 100001\<rparr>
   \<and> 0 < sint (count \<lparr>stack = replicate 100000 (PALLENE_TRACER_LUA_FRAME (host_cfunction 0)), count = 100001\<rparr>)
   \<and> pallene_tracer_setline
        \<lparr>stack = replicate 100000 (PALLENE_TRACER_LUA_FRAME (host_cfunction 0)), count = 100001\<rparr> 7
      = Inl Out_of_bounds"
  by (simp add: allocated_def sint_max_callstack setline_beyond)

text \<open>
  C9: in every state with \<open>1 \<le> count\<close> and \<open>count\<close> at most the capacity of the block,
  \<^verbatim>\<open>pallene_tracer_setline\<close> changes the line of the top frame \<open>stack[count - 1]\<close> and
  nothing else: \<open>count\<close> and the length of the block are as before, every frame at
  another index is as before, and the top frame keeps its \<open>type\<close> and \<open>shared\<close>.
\<close>

theorem setline_frame_effect:
  assumes "1 \<le> sint (count s)" and "sint (count s) \<le> int (length (stack s))"
  shows "\<exists>s'. pallene_tracer_setline s ln = Inr s'
     \<and> count s' = count s \<and> length (stack s') = length (stack s)
     \<and> (\<forall>i. i \<noteq> nat (sint (count s) - 1) \<longrightarrow> stack s' ! i = stack s ! i)
     \<and> type (stack s' ! nat (sint (count s) - 1)) = type (stack s ! nat (sint (count s) - 1))
     \<and> shared (stack s' ! nat (sint (count s) - 1)) = shared (stack s ! nat (sint (count s) - 1))
     \<and> line (stack s' ! nat (sint (count s) - 1)) = ln"
proof -
  from assms have pos: "0 < sint (count s)" by linarith
  from assms have top: "nat (sint (count s) - 1) < length (stack s)" by linarith
  from pos assms(2) top show ?thesis
    by (simp add: setline_in_range)
qed

theorem setline_frame_effect_witness:
  "1 \<le> sint (count \<lparr>stack = replicate 100000 (PALLENE_TRACER_LUA_FRAME (host_cfunction 0)), count = 100000\<rparr>)
   \<and> sint (count \<lparr>stack = replicate 100000 (PALLENE_TRACER_LUA_FRAME (host_cfunction 0)), count = 100000\<rparr>)
       \<le> int (length (stack \<lparr>stack = replicate 100000 (PALLENE_TRACER_LUA_FRAME (host_cfunction 0)), count = 100000\<rparr>))
   \<and> (\<exists>s'. pallene_tracer_setline
          \<lparr>stack = replicate 100000 (PALLENE_TRACER_LUA_FRAME (host_cfunction 0)), count = 100000\<rparr> 7 = Inr s'
        \<and> count s' = 100000 \<and> length (stack s') = 100000
        \<and> (\<forall>i. i \<noteq> 99999 \<longrightarrow> stack s' ! i = replicate 100000 (PALLENE_TRACER_LUA_FRAME (host_cfunction 0)) ! i)
        \<and> type (stack s' ! 99999) = type (PALLENE_TRACER_LUA_FRAME (host_cfunction 0))
        \<and> shared (stack s' ! 99999) = shared (PALLENE_TRACER_LUA_FRAME (host_cfunction 0))
        \<and> line (stack s' ! 99999) = 7)"
  using setline_frame_effect [of "\<lparr>stack = replicate 100000 (PALLENE_TRACER_LUA_FRAME (host_cfunction 0)), count = 100000\<rparr>" 7]
  by simp

section \<open>The finalizer\<close>

text \<open>
  C1, as amended: in every state whose \<open>count\<close> is at most the capacity of the block and
  whose frames at the indices \<open>0..count-1\<close> include a frame of type
  \<^verbatim>\<open>PALLENE_TRACER_FRAME_TYPE_LUA\<close>, the finalizer returns without fault; it leaves the
  array as it is and sets \<open>count\<close> to the index of the topmost such frame: that frame
  is of type LUA and every frame between it and the old \<open>count\<close> is of type C. So that
  frame and all above it are dropped and the frames below it stay. From the frames
  LUA, C, C, C with \<open>count = 4\<close> the new \<open>count\<close> is 0; from LUA, C, LUA, C with
  \<open>count = 4\<close> it is 2.
\<close>

theorem finalizer_cuts_excursion:
  "(sint (count s) \<le> int (length (stack s))
      \<and> (\<exists>i. 0 \<le> i \<and> i < sint (count s) \<and> type (stack s ! nat i) = PALLENE_TRACER_FRAME_TYPE_LUA)
    \<longrightarrow> (\<exists>s'. pallene_tracer_finalizer s = Inr s' \<and> stack s' = stack s
           \<and> 0 \<le> sint (count s') \<and> sint (count s') < sint (count s)
           \<and> type (stack s ! nat (sint (count s'))) = PALLENE_TRACER_FRAME_TYPE_LUA
           \<and> (\<forall>j. sint (count s') < j \<and> j < sint (count s) \<longrightarrow>
                 type (stack s ! nat j) = PALLENE_TRACER_FRAME_TYPE_C)))
   \<and> pallene_tracer_finalizer
        \<lparr>stack = [PALLENE_TRACER_LUA_FRAME f, PALLENE_TRACER_C_FRAME d1,
                  PALLENE_TRACER_C_FRAME d2, PALLENE_TRACER_C_FRAME d3] @ rest, count = 4\<rparr>
      = Inr \<lparr>stack = [PALLENE_TRACER_LUA_FRAME f, PALLENE_TRACER_C_FRAME d1,
                  PALLENE_TRACER_C_FRAME d2, PALLENE_TRACER_C_FRAME d3] @ rest, count = 0\<rparr>
   \<and> pallene_tracer_finalizer
        \<lparr>stack = [PALLENE_TRACER_LUA_FRAME f, PALLENE_TRACER_C_FRAME d1,
                  PALLENE_TRACER_LUA_FRAME f', PALLENE_TRACER_C_FRAME d2] @ rest, count = 4\<rparr>
      = Inr \<lparr>stack = [PALLENE_TRACER_LUA_FRAME f, PALLENE_TRACER_C_FRAME d1,
                  PALLENE_TRACER_LUA_FRAME f', PALLENE_TRACER_C_FRAME d2] @ rest, count = 2\<rparr>"
proof (intro conjI impI)
  assume a: "sint (count s) \<le> int (length (stack s))
      \<and> (\<exists>i. 0 \<le> i \<and> i < sint (count s) \<and> type (stack s ! nat i) = PALLENE_TRACER_FRAME_TYPE_LUA)"
  then obtain i where i: "0 \<le> i" "i < sint (count s)"
    "type (stack s ! nat i) = PALLENE_TRACER_FRAME_TYPE_LUA" by blast
  from a have le: "sint (count s) \<le> int (length (stack s))" by simp
  from finalizer_in_range [OF le i] obtain r where
    r: "pallene_tracer_finalizer s = Inr (s\<lparr>count := r\<rparr>)" "i \<le> sint r" "sint r < sint (count s)"
      "type (stack s ! nat (sint r)) = PALLENE_TRACER_FRAME_TYPE_LUA"
      "\<forall>j. sint r < j \<and> j < sint (count s) \<longrightarrow> type (stack s ! nat j) = PALLENE_TRACER_FRAME_TYPE_C"
    by blast
  with i(1) show "\<exists>s'. pallene_tracer_finalizer s = Inr s' \<and> stack s' = stack s
           \<and> 0 \<le> sint (count s') \<and> sint (count s') < sint (count s)
           \<and> type (stack s ! nat (sint (count s'))) = PALLENE_TRACER_FRAME_TYPE_LUA
           \<and> (\<forall>j. sint (count s') < j \<and> j < sint (count s) \<longrightarrow>
                 type (stack s ! nat j) = PALLENE_TRACER_FRAME_TYPE_C)"
    by (intro exI [of _ "s\<lparr>count := r\<rparr>"]) simp
next
  show "pallene_tracer_finalizer
        \<lparr>stack = [PALLENE_TRACER_LUA_FRAME f, PALLENE_TRACER_C_FRAME d1,
                  PALLENE_TRACER_C_FRAME d2, PALLENE_TRACER_C_FRAME d3] @ rest, count = 4\<rparr>
      = Inr \<lparr>stack = [PALLENE_TRACER_LUA_FRAME f, PALLENE_TRACER_C_FRAME d1,
                  PALLENE_TRACER_C_FRAME d2, PALLENE_TRACER_C_FRAME d3] @ rest, count = 0\<rparr>"
    by (simp add: pallene_tracer_finalizer_def in_bounds_def finalizer_loop.simps
        PALLENE_TRACER_LUA_FRAME_def PALLENE_TRACER_C_FRAME_def)
next
  show "pallene_tracer_finalizer
        \<lparr>stack = [PALLENE_TRACER_LUA_FRAME f, PALLENE_TRACER_C_FRAME d1,
                  PALLENE_TRACER_LUA_FRAME f', PALLENE_TRACER_C_FRAME d2] @ rest, count = 4\<rparr>
      = Inr \<lparr>stack = [PALLENE_TRACER_LUA_FRAME f, PALLENE_TRACER_C_FRAME d1,
                  PALLENE_TRACER_LUA_FRAME f', PALLENE_TRACER_C_FRAME d2] @ rest, count = 2\<rparr>"
    by (simp add: pallene_tracer_finalizer_def in_bounds_def finalizer_loop.simps
        PALLENE_TRACER_LUA_FRAME_def PALLENE_TRACER_C_FRAME_def)
qed

theorem finalizer_cuts_excursion_witness:
  "sint (count \<lparr>stack = [PALLENE_TRACER_LUA_FRAME (host_cfunction 0),
                        PALLENE_TRACER_C_FRAME \<lparr>fn_name = ''f'', filename = ''m.c''\<rparr>,
                        PALLENE_TRACER_LUA_FRAME (host_cfunction 1),
                        PALLENE_TRACER_C_FRAME \<lparr>fn_name = ''g'', filename = ''m.c''\<rparr>], count = 4\<rparr>)
     \<le> int (length (stack \<lparr>stack = [PALLENE_TRACER_LUA_FRAME (host_cfunction 0),
                        PALLENE_TRACER_C_FRAME \<lparr>fn_name = ''f'', filename = ''m.c''\<rparr>,
                        PALLENE_TRACER_LUA_FRAME (host_cfunction 1),
                        PALLENE_TRACER_C_FRAME \<lparr>fn_name = ''g'', filename = ''m.c''\<rparr>], count = 4\<rparr>))
   \<and> type (stack \<lparr>stack = [PALLENE_TRACER_LUA_FRAME (host_cfunction 0),
                        PALLENE_TRACER_C_FRAME \<lparr>fn_name = ''f'', filename = ''m.c''\<rparr>,
                        PALLENE_TRACER_LUA_FRAME (host_cfunction 1),
                        PALLENE_TRACER_C_FRAME \<lparr>fn_name = ''g'', filename = ''m.c''\<rparr>], count = 4\<rparr> ! 0)
       = PALLENE_TRACER_FRAME_TYPE_LUA
   \<and> (\<exists>s'. pallene_tracer_finalizer
              \<lparr>stack = [PALLENE_TRACER_LUA_FRAME (host_cfunction 0),
                        PALLENE_TRACER_C_FRAME \<lparr>fn_name = ''f'', filename = ''m.c''\<rparr>,
                        PALLENE_TRACER_LUA_FRAME (host_cfunction 1),
                        PALLENE_TRACER_C_FRAME \<lparr>fn_name = ''g'', filename = ''m.c''\<rparr>], count = 4\<rparr>
            = Inr s'
          \<and> 0 \<le> sint (count s') \<and> sint (count s') < 4)"
proof -
  let ?S = "\<lparr>stack = [PALLENE_TRACER_LUA_FRAME (host_cfunction 0),
                        PALLENE_TRACER_C_FRAME \<lparr>fn_name = ''f'', filename = ''m.c''\<rparr>,
                        PALLENE_TRACER_LUA_FRAME (host_cfunction 1),
                        PALLENE_TRACER_C_FRAME \<lparr>fn_name = ''g'', filename = ''m.c''\<rparr>], count = 4\<rparr>"
  have le: "sint (count ?S) \<le> int (length (stack ?S))"
    by simp
  have lua: "type (stack ?S ! 0) = PALLENE_TRACER_FRAME_TYPE_LUA"
    by (simp add: PALLENE_TRACER_LUA_FRAME_def)
  have "0 \<le> (0::int) \<and> 0 < sint (count ?S) \<and> type (stack ?S ! nat 0) = PALLENE_TRACER_FRAME_TYPE_LUA"
    using lua by simp
  then have ex: "\<exists>i. 0 \<le> i \<and> i < sint (count ?S) \<and> type (stack ?S ! nat i) = PALLENE_TRACER_FRAME_TYPE_LUA"
    by (rule exI)
  from finalizer_cuts_excursion [where s = ?S, THEN conjunct1] le ex
  have "\<exists>s'. pallene_tracer_finalizer ?S = Inr s' \<and> stack s' = stack ?S
           \<and> 0 \<le> sint (count s') \<and> sint (count s') < sint (count ?S)
           \<and> type (stack ?S ! nat (sint (count s'))) = PALLENE_TRACER_FRAME_TYPE_LUA
           \<and> (\<forall>j. sint (count s') < j \<and> j < sint (count ?S) \<longrightarrow>
                 type (stack ?S ! nat j) = PALLENE_TRACER_FRAME_TYPE_C)"
    by blast
  then obtain s' where "pallene_tracer_finalizer ?S = Inr s'" "0 \<le> sint (count s')"
    "sint (count s') < sint (count ?S)" by blast
  then have "pallene_tracer_finalizer ?S = Inr s' \<and> 0 \<le> sint (count s') \<and> sint (count s') < 4"
    by simp
  then have "\<exists>s'. pallene_tracer_finalizer ?S = Inr s' \<and> 0 \<le> sint (count s') \<and> sint (count s') < 4"
    by (rule exI)
  with le lua show ?thesis by blast
qed

text \<open>
  C1 as stated fails: on the block of 100000 frames with a LUA frame at index 0 and
  \<open>count = 100001\<close> the scan starts at \<open>stack[100000]\<close>, outside the block.
\<close>

theorem finalizer_beyond_capacity_counterexample:
  "allocated \<lparr>stack = PALLENE_TRACER_LUA_FRAME (host_cfunction 0)
                 # replicate 99999 (PALLENE_TRACER_C_FRAME \<lparr>fn_name = ''f'', filename = ''m.c''\<rparr>),
               count = 100001\<rparr>
   \<and> type (stack \<lparr>stack = PALLENE_TRACER_LUA_FRAME (host_cfunction 0)
                 # replicate 99999 (PALLENE_TRACER_C_FRAME \<lparr>fn_name = ''f'', filename = ''m.c''\<rparr>),
               count = 100001\<rparr> ! 0) = PALLENE_TRACER_FRAME_TYPE_LUA
   \<and> 0 < sint (count \<lparr>stack = PALLENE_TRACER_LUA_FRAME (host_cfunction 0)
                 # replicate 99999 (PALLENE_TRACER_C_FRAME \<lparr>fn_name = ''f'', filename = ''m.c''\<rparr>),
               count = 100001\<rparr>)
   \<and> pallene_tracer_finalizer
        \<lparr>stack = PALLENE_TRACER_LUA_FRAME (host_cfunction 0)
           # replicate 99999 (PALLENE_TRACER_C_FRAME \<lparr>fn_name = ''f'', filename = ''m.c''\<rparr>),
         count = 100001\<rparr>
      = Inl Out_of_bounds"
  by (simp add: allocated_def sint_max_callstack finalizer_beyond PALLENE_TRACER_LUA_FRAME_def)




section \<open>Entering a frame\<close>

lemma pt_run_append:
  "pt_run (xs @ ys) s = (case pt_run xs s of Inl e \<Rightarrow> Inl e | Inr s' \<Rightarrow> pt_run ys s')"
  by (induction xs arbitrary: s) (simp_all split: sum.splits)

lemma update_first_dropped:
  assumes "length xs < length ys"
  shows "(xs @ drop (length xs) ys)[length xs := x] = xs @ x # drop (Suc (length xs)) ys"
proof -
  from assms have "drop (length xs) ys = ys ! length xs # drop (Suc (length xs)) ys"
    by (simp add: Cons_nth_drop_Suc)
  then show ?thesis
    by (simp add: list_update_append)
qed

lemma frameenter_all_from_empty:
  assumes "allocated s0" and "count s0 = 0" and "length frames \<le> 2147483647"
  shows "pt_run (map Frameenter frames) s0 =
     Inr (s0\<lparr>stack := take (nat (sint PALLENE_TRACER_MAX_CALLSTACK)) frames
                         @ drop (length frames) (stack s0),
              count := of_nat (length frames)\<rparr>)"
  using assms(3)
proof (induction frames rule: rev_induct)
  case Nil
  with assms(2) show ?case by simp
next
  case (snoc x xs)
  let ?m = "nat (sint PALLENE_TRACER_MAX_CALLSTACK)"
  let ?s = "s0\<lparr>stack := take ?m xs @ drop (length xs) (stack s0), count := of_nat (length xs)\<rparr>"
  from snoc.prems have len: "length xs < 2147483647" by simp
  then have sc: "sint (count ?s) = int (length xs)"
    by (simp add: sint_of_nat_c_int)
  from snoc.IH len have run: "pt_run (map Frameenter xs) s0 = Inr ?s" by simp
  from assms(1) have l0: "length (stack s0) = ?m" by (simp add: allocated_def)
  have step: "pallene_tracer_frameenter ?s x =
      Inr (s0\<lparr>stack := take ?m (xs @ [x]) @ drop (length (xs @ [x])) (stack s0),
               count := of_nat (length (xs @ [x]))\<rparr>)"
  proof (cases "length xs < ?m")
    case True
    with l0 have ls: "length (stack ?s) = ?m" by simp
    from True have lt: "sint (count ?s) < sint PALLENE_TRACER_MAX_CALLSTACK"
      using sc by linarith
    have "0 \<le> sint (count ?s)" using sc by simp
    from frameenter_below [OF this lt ls, of x] sc True l0 show ?thesis
      by (simp add: update_first_dropped add.commute)
  next
    case False
    then have ge: "sint PALLENE_TRACER_MAX_CALLSTACK \<le> sint (count ?s)"
      using sc by linarith
    from frameenter_full [OF ge, of x] False l0 show ?thesis
      by simp
  qed
  from run step show ?case
    by (simp add: pt_run_append)
qed

text \<open>
  C2, as amended: in every state on an allocated block with \<open>0 \<le> count < INT_MAX\<close>
  (2147483647), \<^verbatim>\<open>pallene_tracer_frameenter\<close> returns without fault and \<open>count\<close> is one
  more than before; when \<open>count\<close> was below \<^verbatim>\<open>PALLENE_TRACER_MAX_CALLSTACK\<close> the frame
  is written at index \<open>count\<close>, otherwise the array is as before. So, starting from
  the empty stack, entering \<open>PALLENE_TRACER_MAX_CALLSTACK + k\<close> frames with \<open>k > 0\<close> and
  the sum at most \<open>INT_MAX\<close> gives no fault, leaves \<open>count\<close> at that sum, and the
  array holds the first \<^verbatim>\<open>PALLENE_TRACER_MAX_CALLSTACK\<close> of the frames.
\<close>

theorem frameenter_counts:
  "(allocated s \<and> 0 \<le> sint (count s) \<and> sint (count s) < 2147483647 \<longrightarrow>
      (\<exists>s'. pallene_tracer_frameenter s frame = Inr s'
         \<and> sint (count s') = sint (count s) + 1
         \<and> (sint (count s) < sint PALLENE_TRACER_MAX_CALLSTACK \<longrightarrow>
               stack s' = (stack s)[nat (sint (count s)) := frame]
               \<and> stack s' ! nat (sint (count s)) = frame)
         \<and> (sint PALLENE_TRACER_MAX_CALLSTACK \<le> sint (count s) \<longrightarrow> stack s' = stack s)))
   \<and> (allocated t \<and> count t = 0 \<and> 0 < k
        \<and> length frames = nat (sint PALLENE_TRACER_MAX_CALLSTACK) + k
        \<and> nat (sint PALLENE_TRACER_MAX_CALLSTACK) + k \<le> 2147483647 \<longrightarrow>
      (\<exists>s'. pt_run (map Frameenter frames) t = Inr s'
         \<and> sint (count s') = sint PALLENE_TRACER_MAX_CALLSTACK + int k
         \<and> stack s' = take (nat (sint PALLENE_TRACER_MAX_CALLSTACK)) frames))"
proof (intro conjI impI)
  assume "allocated s \<and> 0 \<le> sint (count s) \<and> sint (count s) < 2147483647"
  then have "\<exists>s'. pallene_tracer_frameenter s frame = Inr s' \<and> allocated s'
     \<and> sint (count s') = sint (count s) + 1
     \<and> (sint (count s) < sint PALLENE_TRACER_MAX_CALLSTACK \<longrightarrow>
           stack s' = (stack s)[nat (sint (count s)) := frame]
           \<and> stack s' ! nat (sint (count s)) = frame)
     \<and> (sint PALLENE_TRACER_MAX_CALLSTACK \<le> sint (count s) \<longrightarrow> stack s' = stack s)"
    by (intro frameenter_allocated) simp_all
  then show "\<exists>s'. pallene_tracer_frameenter s frame = Inr s'
         \<and> sint (count s') = sint (count s) + 1
         \<and> (sint (count s) < sint PALLENE_TRACER_MAX_CALLSTACK \<longrightarrow>
               stack s' = (stack s)[nat (sint (count s)) := frame]
               \<and> stack s' ! nat (sint (count s)) = frame)
         \<and> (sint PALLENE_TRACER_MAX_CALLSTACK \<le> sint (count s) \<longrightarrow> stack s' = stack s)"
    by blast
next
  assume a: "allocated t \<and> count t = 0 \<and> 0 < k
        \<and> length frames = nat (sint PALLENE_TRACER_MAX_CALLSTACK) + k
        \<and> nat (sint PALLENE_TRACER_MAX_CALLSTACK) + k \<le> 2147483647"
  then have len: "length frames \<le> 2147483647" by simp
  from a have "allocated t" "count t = 0" by simp_all
  from frameenter_all_from_empty [OF this len]
  have run: "pt_run (map Frameenter frames) t =
     Inr (t\<lparr>stack := take (nat (sint PALLENE_TRACER_MAX_CALLSTACK)) frames
                         @ drop (length frames) (stack t),
              count := of_nat (length frames)\<rparr>)" .
  from a have d: "drop (length frames) (stack t) = []"
    by (simp add: allocated_def)
  from len have "sint (of_nat (length frames) :: c_int) = int (length frames)"
    by (simp add: sint_of_nat_c_int)
  with a have c: "sint (of_nat (length frames) :: c_int) = sint PALLENE_TRACER_MAX_CALLSTACK + int k"
    by (simp add: sint_max_callstack)
  from run d c show "\<exists>s'. pt_run (map Frameenter frames) t = Inr s'
         \<and> sint (count s') = sint PALLENE_TRACER_MAX_CALLSTACK + int k
         \<and> stack s' = take (nat (sint PALLENE_TRACER_MAX_CALLSTACK)) frames"
    by simp
qed

theorem frameenter_counts_witness:
  "allocated \<lparr>stack = replicate 100000 (PALLENE_TRACER_LUA_FRAME (host_cfunction 0)), count = 5\<rparr>
   \<and> 0 \<le> sint (count \<lparr>stack = replicate 100000 (PALLENE_TRACER_LUA_FRAME (host_cfunction 0)), count = 5\<rparr>)
   \<and> sint (count \<lparr>stack = replicate 100000 (PALLENE_TRACER_LUA_FRAME (host_cfunction 0)), count = 5\<rparr>)
       < 2147483647
   \<and> (\<exists>s'. pallene_tracer_frameenter
              \<lparr>stack = replicate 100000 (PALLENE_TRACER_LUA_FRAME (host_cfunction 0)), count = 5\<rparr>
              (PALLENE_TRACER_LUA_FRAME (host_cfunction 1)) = Inr s'
         \<and> sint (count s') = 6
         \<and> stack s' ! 5 = PALLENE_TRACER_LUA_FRAME (host_cfunction 1))
   \<and> allocated \<lparr>stack = replicate 100000 (PALLENE_TRACER_LUA_FRAME (host_cfunction 0)), count = 0\<rparr>
   \<and> (0::nat) < 3
   \<and> length (replicate 100003 (PALLENE_TRACER_LUA_FRAME (host_cfunction 1)))
       = nat (sint PALLENE_TRACER_MAX_CALLSTACK) + 3
   \<and> nat (sint PALLENE_TRACER_MAX_CALLSTACK) + 3 \<le> 2147483647
   \<and> (\<exists>s'. pt_run (map Frameenter (replicate 100003 (PALLENE_TRACER_LUA_FRAME (host_cfunction 1))))
              \<lparr>stack = replicate 100000 (PALLENE_TRACER_LUA_FRAME (host_cfunction 0)), count = 0\<rparr>
            = Inr s'
         \<and> sint (count s') = 100003
         \<and> stack s' = replicate 100000 (PALLENE_TRACER_LUA_FRAME (host_cfunction 1)))"
proof -
  let ?s = "\<lparr>stack = replicate 100000 (PALLENE_TRACER_LUA_FRAME (host_cfunction 0)), count = 5\<rparr>"
  let ?e = "\<lparr>stack = replicate 100000 (PALLENE_TRACER_LUA_FRAME (host_cfunction 0)), count = 0\<rparr>"
  let ?fs = "replicate 100003 (PALLENE_TRACER_LUA_FRAME (host_cfunction 1))"
  have h1: "allocated ?s \<and> 0 \<le> sint (count ?s) \<and> sint (count ?s) < 2147483647"
    by (simp add: allocated_def sint_max_callstack)
  have h2: "allocated ?e \<and> count ?e = 0 \<and> (0::nat) < 3
        \<and> length ?fs = nat (sint PALLENE_TRACER_MAX_CALLSTACK) + 3
        \<and> nat (sint PALLENE_TRACER_MAX_CALLSTACK) + 3 \<le> 2147483647"
    by (simp add: allocated_def sint_max_callstack)
  note t = frameenter_counts [where s = ?s and frame = "PALLENE_TRACER_LUA_FRAME (host_cfunction 1)"
      and t = ?e and k = 3 and frames = ?fs]
  from t h1 have "\<exists>s'. pallene_tracer_frameenter ?s (PALLENE_TRACER_LUA_FRAME (host_cfunction 1)) = Inr s'
         \<and> sint (count s') = 6
         \<and> stack s' ! 5 = PALLENE_TRACER_LUA_FRAME (host_cfunction 1)"
    by (auto simp add: sint_max_callstack)
  moreover from t h2 have "\<exists>s'. pt_run (map Frameenter ?fs) ?e = Inr s'
         \<and> sint (count s') = 100003
         \<and> stack s' = replicate 100000 (PALLENE_TRACER_LUA_FRAME (host_cfunction 1))"
    by (simp add: sint_max_callstack)
  ultimately show ?thesis using h1 h2 by blast
qed

text \<open>
  C2 as stated fails: 2147483647 calls of \<^verbatim>\<open>pallene_tracer_frameenter\<close> take the empty
  stack to \<open>count = INT_MAX\<close>; there the increment wraps around, and \<open>count\<close> is
  \<open>-2147483648\<close> afterwards, not \<open>count + 1\<close>.
\<close>

theorem frameenter_int_max_counterexample:
  "allocated \<lparr>stack = replicate 100000 (PALLENE_TRACER_LUA_FRAME (host_cfunction 0)), count = 0\<rparr>
   \<and> pt_run (replicate 2147483647 (Frameenter (PALLENE_TRACER_LUA_FRAME (host_cfunction 1))))
        \<lparr>stack = replicate 100000 (PALLENE_TRACER_LUA_FRAME (host_cfunction 0)), count = 0\<rparr>
      = Inr \<lparr>stack = replicate 100000 (PALLENE_TRACER_LUA_FRAME (host_cfunction 1)),
              count = 2147483647\<rparr>
   \<and> sint (count \<lparr>stack = replicate 100000 (PALLENE_TRACER_LUA_FRAME (host_cfunction 1)),
                   count = 2147483647\<rparr>) = 2147483647
   \<and> pallene_tracer_frameenter
        \<lparr>stack = replicate 100000 (PALLENE_TRACER_LUA_FRAME (host_cfunction 1)), count = 2147483647\<rparr>
        (PALLENE_TRACER_LUA_FRAME (host_cfunction 1))
      = Inr \<lparr>stack = replicate 100000 (PALLENE_TRACER_LUA_FRAME (host_cfunction 1)),
              count = - 2147483648\<rparr>
   \<and> sint (count \<lparr>stack = replicate 100000 (PALLENE_TRACER_LUA_FRAME (host_cfunction 1)),
                   count = - 2147483648\<rparr>) = - 2147483648"
proof -
  let ?e = "\<lparr>stack = replicate 100000 (PALLENE_TRACER_LUA_FRAME (host_cfunction 0)), count = 0\<rparr>"
  let ?f = "PALLENE_TRACER_LUA_FRAME (host_cfunction 1)"
  have a: "allocated ?e" by (simp add: allocated_def sint_max_callstack)
  have c: "count ?e = 0" by simp
  have l: "length (replicate 2147483647 ?f) \<le> 2147483647" by simp
  from frameenter_all_from_empty [OF a c l]
  have run: "pt_run (replicate 2147483647 (Frameenter ?f)) ?e
      = Inr \<lparr>stack = replicate 100000 ?f, count = 2147483647\<rparr>"
    by (simp add: sint_max_callstack)
  have step: "pallene_tracer_frameenter \<lparr>stack = replicate 100000 ?f, count = 2147483647\<rparr> ?f
      = Inr \<lparr>stack = replicate 100000 ?f, count = - 2147483648\<rparr>"
    by (simp add: sint_max_callstack pallene_tracer_frameenter_def)
  from a run step show ?thesis by simp
qed

section \<open>Sequences of calls\<close>

lemma length_malloc_frames: "length (malloc_frames n g) = n"
  by (simp add: malloc_frames_def)

text \<open>
  C3 fails on the code: from the stack that \<^verbatim>\<open>pallene_tracer_init\<close> creates, 100001 calls
  of \<^verbatim>\<open>pallene_tracer_frameenter\<close> followed by one call of \<^verbatim>\<open>pallene_tracer_setline\<close>
  end in the write to \<open>stack[100000]\<close>, outside the block of 100000 frames.
  \<^verbatim>\<open>pallene_tracer_frameenter\<close> tests \<open>count\<close> against the capacity before it writes;
  \<^verbatim>\<open>pallene_tracer_setline\<close> does not.
\<close>

theorem setline_after_overflow_faults:
  "pt_run (map Frameenter (replicate 100001 frame) @ [Setline ln])
     \<lparr>stack = malloc_frames (nat (sint PALLENE_TRACER_MAX_CALLSTACK)) g, count = 0\<rparr>
   = Inl Out_of_bounds"
proof -
  let ?e = "\<lparr>stack = malloc_frames (nat (sint PALLENE_TRACER_MAX_CALLSTACK)) g, count = 0\<rparr>"
  have a: "allocated ?e" by (simp add: allocated_def length_malloc_frames)
  have c: "count ?e = 0" by simp
  have l: "length (replicate 100001 frame) \<le> 2147483647" by simp
  from frameenter_all_from_empty [OF a c l]
  have run: "pt_run (map Frameenter (replicate 100001 frame)) ?e =
     Inr \<lparr>stack = replicate 100000 frame, count = 100001\<rparr>"
    by (simp add: sint_max_callstack length_malloc_frames)
  have "pallene_tracer_setline \<lparr>stack = replicate 100000 frame, count = 100001\<rparr> ln
      = Inl Out_of_bounds"
    by (simp add: setline_beyond)
  with run show ?thesis
    by (simp add: pt_run_append del: map_replicate)
qed

text \<open>
  What does hold of the accesses: on the block that \<^verbatim>\<open>pallene_tracer_init\<close> allocates,
  a run that stays within the capacity and calls the finalizer only with a frame of type
  LUA below \<open>count\<close> ends without a fault.
\<close>

lemma lua_frame_belowD:
  assumes "lua_frame_below s"
  shows "\<exists>i. 0 \<le> i \<and> i < sint (count s) \<and> nat i < length (stack s)
           \<and> type (stack s ! nat i) = PALLENE_TRACER_FRAME_TYPE_LUA"
proof -
  let ?n = "nat (sint (count s))"
  from assms obtain x where x: "x \<in> set (take ?n (stack s))"
    "type x = PALLENE_TRACER_FRAME_TYPE_LUA"
    by (auto simp add: lua_frame_below_def)
  from x(1) obtain k where k: "k < length (take ?n (stack s))" "take ?n (stack s) ! k = x"
    by (auto simp add: in_set_conv_nth)
  then have "k < ?n" "k < length (stack s)" "stack s ! k = x" by simp_all
  with x(2) have "0 \<le> int k \<and> int k < sint (count s) \<and> nat (int k) < length (stack s)
      \<and> type (stack s ! nat (int k)) = PALLENE_TRACER_FRAME_TYPE_LUA"
    by simp
  then show ?thesis by (rule exI)
qed

lemma step_within_capacity:
  assumes "allocated s" and "0 \<le> sint (count s)"
    and "sint (count s) \<le> sint PALLENE_TRACER_MAX_CALLSTACK"
    and "case op of
         Frameenter frame \<Rightarrow> sint (count s) < sint PALLENE_TRACER_MAX_CALLSTACK
       | Finalizer \<Rightarrow> lua_frame_below s
       | _ \<Rightarrow> True"
  shows "\<exists>s'. pt_step op s = Inr s' \<and> allocated s' \<and> 0 \<le> sint (count s')
     \<and> sint (count s') \<le> sint PALLENE_TRACER_MAX_CALLSTACK"
proof (cases op)
  case (Frameenter frame)
  with assms(4) have lt: "sint (count s) < sint PALLENE_TRACER_MAX_CALLSTACK" by simp
  then have "sint (count s) < 2147483647" by (simp add: sint_max_callstack)
  from frameenter_allocated [OF assms(1,2) this, of frame] obtain s' where
    "pallene_tracer_frameenter s frame = Inr s'" "allocated s'"
    "sint (count s') = sint (count s) + 1" by blast
  with Frameenter lt assms(2) show ?thesis by simp
next
  case (Setline ln)
  from assms(1) have len: "int (length (stack s)) = sint PALLENE_TRACER_MAX_CALLSTACK"
    by (simp add: allocated_def sint_max_callstack)
  show ?thesis
  proof (cases "count s = 0")
    case True
    with Setline assms show ?thesis by (simp add: setline_empty)
  next
    case False
    with assms(2) have "0 < sint (count s)"
      by (metis less_le signed_0 sint_eq_imp_eq)
    moreover from assms(3) len have "sint (count s) \<le> int (length (stack s))" by simp
    ultimately have "pallene_tracer_setline s ln =
      Inr (s\<lparr>stack := (stack s)[nat (sint (count s) - 1) :=
             (stack s ! nat (sint (count s) - 1))\<lparr>line := ln\<rparr>]\<rparr>)"
      by (rule setline_in_range)
    with Setline assms show ?thesis by (simp add: allocated_def)
  qed
next
  case Frameexit
  with assms frameexit_count_bounds [OF assms(2)] show ?thesis
    by (simp add: frameexit_allocated)
next
  case Finalizer
  with assms(4) have "lua_frame_below s" by simp
  from lua_frame_belowD [OF this] obtain i where i: "0 \<le> i" "i < sint (count s)"
    "type (stack s ! nat i) = PALLENE_TRACER_FRAME_TYPE_LUA" by blast
  from assms(1,3) have "sint (count s) \<le> int (length (stack s))"
    by (simp add: allocated_def sint_max_callstack)
  from finalizer_in_range [OF this i] obtain r where
    "pallene_tracer_finalizer s = Inr (s\<lparr>count := r\<rparr>)" "i \<le> sint r" "sint r < sint (count s)"
    by blast
  with Finalizer assms i(1) show ?thesis by (simp add: allocated_def)
qed

lemma run_within_capacity:
  assumes "allocated s" and "0 \<le> sint (count s)"
    and "sint (count s) \<le> sint PALLENE_TRACER_MAX_CALLSTACK"
    and "within_capacity ops s"
  shows "\<exists>s'. pt_run ops s = Inr s'"
  using assms
proof (induction ops arbitrary: s)
  case Nil
  then show ?case by simp
next
  case (Cons op ops)
  from Cons.prems(4) have pre: "case op of
         Frameenter frame \<Rightarrow> sint (count s) < sint PALLENE_TRACER_MAX_CALLSTACK
       | Finalizer \<Rightarrow> lua_frame_below s
       | _ \<Rightarrow> True"
    by simp
  from step_within_capacity [OF Cons.prems(1-3) pre] obtain s1 where
    s1: "pt_step op s = Inr s1" "allocated s1" "0 \<le> sint (count s1)"
      "sint (count s1) \<le> sint PALLENE_TRACER_MAX_CALLSTACK" by blast
  with Cons.prems(4) have "within_capacity ops s1" by simp
  from Cons.IH [OF s1(2-4) this] s1(1) show ?case by simp
qed

lemma peak_ge: "d \<le> peak ops d"
  by (induction ops d rule: peak.induct) simp_all

lemma nested_run:
  assumes "allocated s" and "nesting ops d = Some d'" and "int d \<le> sint (count s)"
    and "sint (count s) - int d + int (peak ops d) \<le> 2147483647"
  shows "\<exists>s'. pt_run ops s = Inr s' \<and> allocated s'
     \<and> sint (count s') = sint (count s) - int d + int d'"
  using assms
proof (induction ops d arbitrary: s rule: nesting.induct)
  case (1 d)
  then show ?case by simp
next
  case (2 frame ops d)
  have "Suc d \<le> peak ops (Suc d)" by (rule peak_ge)
  with 2 have lt: "sint (count s) < 2147483647" by simp
  from 2 have nonneg: "0 \<le> sint (count s)" by linarith
  from frameenter_allocated [OF "2.prems"(1) nonneg lt, of frame]
  obtain s1 where s1: "pallene_tracer_frameenter s frame = Inr s1" "allocated s1"
    "sint (count s1) = sint (count s) + 1" by blast
  from "2.prems" s1 have "\<exists>s'. pt_run ops s1 = Inr s' \<and> allocated s'
     \<and> sint (count s') = sint (count s1) - int (Suc d) + int d'"
    by (intro "2.IH") simp_all
  then obtain s' where "pt_run ops s1 = Inr s'" "allocated s'"
    "sint (count s') = sint (count s1) - int (Suc d) + int d'" by blast
  with s1 show ?case by simp
next
  case (3 ops d)
  from "3.prems"(2) obtain d0 where d: "d = Suc d0" and n: "nesting ops d0 = Some d'"
    by (cases d) simp_all
  from d "3.prems" have pos: "0 < sint (count s)" by linarith
  let ?s1 = "pallene_tracer_frameexit s"
  from pos have c1: "sint (count ?s1) = sint (count s) - 1"
    by (simp add: pallene_tracer_frameexit_def sint_dec)
  from "3.prems"(1) have a1: "allocated ?s1" by (simp add: frameexit_allocated)
  from d "3.prems" c1 have "\<exists>s'. pt_run ops ?s1 = Inr s' \<and> allocated s'
     \<and> sint (count s') = sint (count ?s1) - int d0 + int d'"
    by (intro "3.IH" [OF d a1 n]) simp_all
  then obtain s' where "pt_run ops ?s1 = Inr s'" "allocated s'"
    "sint (count s') = sint (count ?s1) - int d0 + int d'" by blast
  with c1 d show ?case by simp
next
  case (4 ln ops d)
  then show ?case by simp
next
  case (5 ops d)
  then show ?case by simp
qed

text \<open>
  C5, as amended: from every state on an allocated block with \<open>count \<ge> 0\<close>, a well-nested
  sequence of \<open>Frameenter\<close> and \<open>Frameexit\<close> whose greatest depth keeps \<open>count\<close> at
  most \<open>INT_MAX\<close> runs without fault and ends with \<open>count\<close> as it was before; in
  particular \<^verbatim>\<open>pallene_tracer_frameexit\<close> after \<^verbatim>\<open>pallene_tracer_frameenter\<close> restores
  \<open>count\<close> from every such state with \<open>count < INT_MAX\<close>.
\<close>

theorem well_nested_restores_count:
  "(allocated s \<and> 0 \<le> sint (count s) \<and> well_nested ops
      \<and> sint (count s) + int (peak ops 0) \<le> 2147483647 \<longrightarrow>
      (\<exists>s'. pt_run ops s = Inr s' \<and> count s' = count s))
   \<and> (allocated s \<and> 0 \<le> sint (count s) \<and> sint (count s) < 2147483647 \<longrightarrow>
      (\<exists>s1. pallene_tracer_frameenter s frame = Inr s1
         \<and> count (pallene_tracer_frameexit s1) = count s))"
proof (intro conjI impI)
  assume a: "allocated s \<and> 0 \<le> sint (count s) \<and> well_nested ops
      \<and> sint (count s) + int (peak ops 0) \<le> 2147483647"
  then have "\<exists>s'. pt_run ops s = Inr s' \<and> allocated s'
     \<and> sint (count s') = sint (count s) - int 0 + int 0"
    by (intro nested_run) (simp_all add: well_nested_def)
  then obtain s' where "pt_run ops s = Inr s'" "sint (count s') = sint (count s)" by auto
  then show "\<exists>s'. pt_run ops s = Inr s' \<and> count s' = count s"
    by (auto dest: sint_eq_imp_eq)
next
  assume a: "allocated s \<and> 0 \<le> sint (count s) \<and> sint (count s) < 2147483647"
  then have "\<exists>s'. pallene_tracer_frameenter s frame = Inr s' \<and> allocated s'
     \<and> sint (count s') = sint (count s) + 1
     \<and> (sint (count s) < sint PALLENE_TRACER_MAX_CALLSTACK \<longrightarrow>
           stack s' = (stack s)[nat (sint (count s)) := frame]
           \<and> stack s' ! nat (sint (count s)) = frame)
     \<and> (sint PALLENE_TRACER_MAX_CALLSTACK \<le> sint (count s) \<longrightarrow> stack s' = stack s)"
    by (intro frameenter_allocated) simp_all
  then obtain s1 where s1: "pallene_tracer_frameenter s frame = Inr s1"
    "sint (count s1) = sint (count s) + 1" by blast
  with a have "sint (count (pallene_tracer_frameexit s1)) = sint (count s)"
    by (simp add: pallene_tracer_frameexit_def sint_dec)
  then have "count (pallene_tracer_frameexit s1) = count s"
    by (rule sint_eq_imp_eq)
  with s1 show "\<exists>s1. pallene_tracer_frameenter s frame = Inr s1
         \<and> count (pallene_tracer_frameexit s1) = count s"
    by blast
qed

theorem well_nested_restores_count_witness:
  "allocated \<lparr>stack = replicate 100000 (PALLENE_TRACER_LUA_FRAME (host_cfunction 0)), count = 99999\<rparr>
   \<and> 0 \<le> sint (count \<lparr>stack = replicate 100000 (PALLENE_TRACER_LUA_FRAME (host_cfunction 0)),
                         count = 99999\<rparr>)
   \<and> well_nested [Frameenter (PALLENE_TRACER_LUA_FRAME (host_cfunction 1)),
                   Frameenter (PALLENE_TRACER_C_FRAME \<lparr>fn_name = ''f'', filename = ''m.c''\<rparr>),
                   Frameexit,
                   Frameenter (PALLENE_TRACER_C_FRAME \<lparr>fn_name = ''g'', filename = ''m.c''\<rparr>),
                   Frameexit, Frameexit]
   \<and> sint (count \<lparr>stack = replicate 100000 (PALLENE_TRACER_LUA_FRAME (host_cfunction 0)),
                   count = 99999\<rparr>)
       + int (peak [Frameenter (PALLENE_TRACER_LUA_FRAME (host_cfunction 1)),
                   Frameenter (PALLENE_TRACER_C_FRAME \<lparr>fn_name = ''f'', filename = ''m.c''\<rparr>),
                   Frameexit,
                   Frameenter (PALLENE_TRACER_C_FRAME \<lparr>fn_name = ''g'', filename = ''m.c''\<rparr>),
                   Frameexit, Frameexit] 0) \<le> 2147483647
   \<and> (\<exists>s'. pt_run [Frameenter (PALLENE_TRACER_LUA_FRAME (host_cfunction 1)),
                   Frameenter (PALLENE_TRACER_C_FRAME \<lparr>fn_name = ''f'', filename = ''m.c''\<rparr>),
                   Frameexit,
                   Frameenter (PALLENE_TRACER_C_FRAME \<lparr>fn_name = ''g'', filename = ''m.c''\<rparr>),
                   Frameexit, Frameexit]
              \<lparr>stack = replicate 100000 (PALLENE_TRACER_LUA_FRAME (host_cfunction 0)), count = 99999\<rparr>
            = Inr s' \<and> count s' = 99999)
   \<and> (\<exists>s1. pallene_tracer_frameenter
              \<lparr>stack = replicate 100000 (PALLENE_TRACER_LUA_FRAME (host_cfunction 0)), count = 99999\<rparr>
              (PALLENE_TRACER_LUA_FRAME (host_cfunction 1)) = Inr s1
         \<and> count (pallene_tracer_frameexit s1) = 99999)"
proof -
  let ?s = "\<lparr>stack = replicate 100000 (PALLENE_TRACER_LUA_FRAME (host_cfunction 0)), count = 99999\<rparr>"
  let ?ops = "[Frameenter (PALLENE_TRACER_LUA_FRAME (host_cfunction 1)),
                   Frameenter (PALLENE_TRACER_C_FRAME \<lparr>fn_name = ''f'', filename = ''m.c''\<rparr>),
                   Frameexit,
                   Frameenter (PALLENE_TRACER_C_FRAME \<lparr>fn_name = ''g'', filename = ''m.c''\<rparr>),
                   Frameexit, Frameexit]"
  have h: "allocated ?s \<and> 0 \<le> sint (count ?s) \<and> well_nested ?ops
      \<and> sint (count ?s) + int (peak ?ops 0) \<le> 2147483647"
    by (simp add: allocated_def sint_max_callstack well_nested_def)
  have h': "allocated ?s \<and> 0 \<le> sint (count ?s) \<and> sint (count ?s) < 2147483647"
    by (simp add: allocated_def sint_max_callstack)
  note t = well_nested_restores_count [where s = ?s and ops = ?ops
      and frame = "PALLENE_TRACER_LUA_FRAME (host_cfunction 1)"]
  from t h have "\<exists>s'. pt_run ?ops ?s = Inr s' \<and> count s' = 99999"
    by simp
  moreover from t h' have "\<exists>s1. pallene_tracer_frameenter ?s (PALLENE_TRACER_LUA_FRAME (host_cfunction 1)) = Inr s1
         \<and> count (pallene_tracer_frameexit s1) = 99999"
    by simp
  ultimately show ?thesis using h by blast
qed

text \<open>
  C5 as stated fails: from \<open>count = INT_MAX\<close>, \<^verbatim>\<open>pallene_tracer_frameenter\<close> wraps
  \<open>count\<close> to \<open>-2147483648\<close>, where \<^verbatim>\<open>pallene_tracer_frameexit\<close> leaves it.
\<close>

theorem frameexit_after_frameenter_counterexample:
  "allocated \<lparr>stack = replicate 100000 (PALLENE_TRACER_LUA_FRAME (host_cfunction 0)), count = 2147483647\<rparr>
   \<and> pallene_tracer_frameenter
        \<lparr>stack = replicate 100000 (PALLENE_TRACER_LUA_FRAME (host_cfunction 0)), count = 2147483647\<rparr>
        (PALLENE_TRACER_LUA_FRAME (host_cfunction 1))
      = Inr \<lparr>stack = replicate 100000 (PALLENE_TRACER_LUA_FRAME (host_cfunction 0)),
              count = - 2147483648\<rparr>
   \<and> count (pallene_tracer_frameexit
        \<lparr>stack = replicate 100000 (PALLENE_TRACER_LUA_FRAME (host_cfunction 0)),
         count = - 2147483648\<rparr>) = - 2147483648
   \<and> (- 2147483648 :: c_int) \<noteq> 2147483647"
  by (simp add: allocated_def sint_max_callstack pallene_tracer_frameenter_def
      pallene_tracer_frameexit_def)

section \<open>Initialisation\<close>






text \<open>
  Without \<^verbatim>\<open>PT_DEBUG\<close> the function is the stub that pushes \<open>nil\<close> and returns \<^verbatim>\<open>NULL\<close>.
\<close>

lemma init_without_debug:
  "pallene_tracer_init False junk m L = Some (L\<lparr>vstack := LNil # vstack L\<rparr>, None)"
  by (simp add: pallene_tracer_init_def lua_pushnil_def lua_push_def)


lemma malloc_fails: "malloc n None = []"
  by (simp add: malloc_def)


text \<open>
  When \<^verbatim>\<open>malloc\<close> fails the stack is still created, with \<open>count = 0\<close> and the
  \<^verbatim>\<open>NULL\<close> pointer; the first \<^verbatim>\<open>pallene_tracer_frameenter\<close> then writes through it.
\<close>

lemma frameenter_after_failed_malloc:
  "pallene_tracer_frameenter \<lparr>stack = malloc n None, count = 0\<rparr> frame = Inl Out_of_bounds"
  by (simp add: pallene_tracer_frameenter_def malloc_fails in_bounds_def sint_max_callstack)


section \<open>The sign of the count\<close>







end
